theory Spec2Isabelle
  imports Main "HOL-Library.Word"
begin

section \<open>Transparency-log submission (pkg/sign/transparency.go)\<close>

subsection \<open>Go values\<close>

type_synonym bytes = "8 word list"

text \<open>\<^verbatim>\<open>time.Duration\<close> is a signed 64-bit count of nanoseconds.\<close>

type_synonym Duration = "64 word"

definition Second :: Duration where
  "Second = 1000000000"

text \<open>
  Go's \<^verbatim>\<open>error\<close> values: the ones this file makes with \<^verbatim>\<open>errors.New\<close>, and the ones
  its collaborators hand back, which it only passes on.
\<close>

datatype error = ErrorsNew string | ExternalError string

text \<open>A call either returns its \<^verbatim>\<open>error\<close> result (\<open>None\<close> is \<^verbatim>\<open>nil\<close>) or panics.\<close>

datatype outcome = Return "error option" | Panic

datatype Context = Ctx nat

subsection \<open>The bundle (protobuf messages; a pointer is an option, \<open>None\<close> is nil)\<close>

record X509Certificate =
  RawBytes :: bytes

record HashOutput =
  Algorithm :: nat
  Digest :: bytes

record MessageSignature =
  MessageDigest :: "HashOutput option"
  Signature :: bytes

record Envelope =
  EnvelopePayload :: bytes
  PayloadType :: string
  Signatures :: "(bytes \<times> string) list"

record TransparencyLogEntry =
  TleLogIndex :: "64 word"
  TleLogId :: bytes
  TleIntegratedTime :: "64 word"
  CanonicalizedBody :: bytes

datatype VerificationMaterial_Content =
    VerificationMaterial_PublicKey string
  | VerificationMaterial_X509CertificateChain "X509Certificate list"
  | VerificationMaterial_Certificate "X509Certificate option"

text \<open>\<open>TlogEntries\<close> is a Go slice: \<open>None\<close> is the nil slice, \<open>Some []\<close> the empty one.\<close>

record VerificationMaterial =
  VMContent :: "VerificationMaterial_Content option"
  TlogEntries :: "TransparencyLogEntry list option"

datatype Bundle_Content =
    Bundle_MessageSignature "MessageSignature option"
  | Bundle_DsseEnvelope "Envelope option"

record Bundle =
  MediaType :: string
  VerificationMaterial :: "VerificationMaterial option"
  Content :: "Bundle_Content option"

text \<open>
  The generated getters are nil-tolerant: a nil receiver, or a oneof holding another
  alternative, gives nil.
\<close>

definition GetDsseEnvelope :: "Bundle option \<Rightarrow> Envelope option" where
  "GetDsseEnvelope b =
     (case b of None \<Rightarrow> None
      | Some x \<Rightarrow> (case Content x of Some (Bundle_DsseEnvelope e) \<Rightarrow> e | _ \<Rightarrow> None))"

definition GetMessageSignature :: "Bundle option \<Rightarrow> MessageSignature option" where
  "GetMessageSignature b =
     (case b of None \<Rightarrow> None
      | Some x \<Rightarrow> (case Content x of Some (Bundle_MessageSignature m) \<Rightarrow> m | _ \<Rightarrow> None))"

definition GetVerificationMaterial :: "Bundle option \<Rightarrow> VerificationMaterial option" where
  "GetVerificationMaterial b = (case b of None \<Rightarrow> None | Some x \<Rightarrow> VerificationMaterial x)"

definition GetCertificate :: "VerificationMaterial option \<Rightarrow> X509Certificate option" where
  "GetCertificate v =
     (case v of None \<Rightarrow> None
      | Some x \<Rightarrow> (case VMContent x of Some (VerificationMaterial_Certificate c) \<Rightarrow> c | _ \<Rightarrow> None))"

text \<open>Go's \<^verbatim>\<open>append(s, x)\<close>: a nil slice counts as empty, the result is never nil.\<close>

definition append_slice :: "'a list option \<Rightarrow> 'a \<Rightarrow> 'a list option" where
  "append_slice s x = Some ((case s of None \<Rightarrow> [] | Some xs \<Rightarrow> xs) @ [x])"

subsection \<open>Rekor's request and response types\<close>

record ArtifactProperties =
  ArtifactHash :: string
  ArtifactBytes :: bytes
  SignatureBytes :: bytes
  PublicKeyBytes :: "bytes list"
  PKIFormat :: string

definition ArtifactProperties_zero :: ArtifactProperties where
  "ArtifactProperties_zero =
     \<lparr>ArtifactHash = [], ArtifactBytes = [], SignatureBytes = [], PublicKeyBytes = [],
      PKIFormat = []\<rparr>"

record ProposedEntry =
  Kind :: string
  Spec :: bytes

record CreateLogEntryParams =
  ProposedEntry :: "ProposedEntry option"
  timeout :: Duration
  Context :: "Context option"

record LogEntryAnon =
  Body :: "string option"
  IntegratedTime :: "64 word option"
  LogID :: "string option"
  LogIndex :: "64 word option"

definition LogEntryAnon_zero :: LogEntryAnon where
  "LogEntryAnon_zero = \<lparr>Body = None, IntegratedTime = None, LogID = None, LogIndex = None\<rparr>"

record CreateLogEntryCreated =
  ETag :: string
  Location :: string
  Payload :: "string \<rightharpoonup> LogEntryAnon"

text \<open>The \<^verbatim>\<open>RekorClient\<close> interface has the one method \<^verbatim>\<open>CreateLogEntry\<close>.\<close>

datatype RekorClient =
  RekorClient (CreateLogEntry: "CreateLogEntryParams \<Rightarrow> error + CreateLogEntryCreated")

record RekorOptions =
  BaseURL :: string
  Timeout :: Duration
  Retries :: nat
  Client :: "RekorClient option"

text \<open>
  The collaborators of other packages, as parameters: the JSON encoder, the two entry
  types of Rekor, the constructor of the request parameters, the client factory (its
  result's \<^verbatim>\<open>Entries\<close> service), the user agent, and the conversion of a log entry.
\<close>

record env =
  json_Marshal :: "Envelope \<Rightarrow> error + bytes"
  dsse_CreateProposedEntry :: "Context \<Rightarrow> string \<Rightarrow> ArtifactProperties \<Rightarrow> error + ProposedEntry"
  hashedrekord_CreateProposedEntry ::
    "Context \<Rightarrow> string \<Rightarrow> ArtifactProperties \<Rightarrow> error + ProposedEntry"
  PrefixSHA :: "string \<Rightarrow> string"
  pki_X509 :: string
  NewCreateLogEntryParams :: CreateLogEntryParams
  ConstructUserAgent :: string
  GetRekorClient :: "string \<Rightarrow> string \<Rightarrow> nat \<Rightarrow> error + RekorClient"
  GenerateTransparencyLogEntry :: "LogEntryAnon \<Rightarrow> error + TransparencyLogEntry"

subsection \<open>\<^verbatim>\<open>hex.EncodeToString\<close>\<close>

definition hexdigit :: "nat \<Rightarrow> char" where
  "hexdigit n = ''0123456789abcdef'' ! (n mod 16)"

fun EncodeToString :: "bytes \<Rightarrow> string" where
  "EncodeToString [] = []"
| "EncodeToString (b # bs) =
     hexdigit (unat b div 16) # hexdigit (unat b mod 16) # EncodeToString bs"

subsection \<open>\<^verbatim>\<open>Rekor.GetTransparencyLogEntry\<close>\<close>

text \<open>
  Lines 71 to 117: the proposed entry for the bundle's signature, or the way the call
  ends there. \<^verbatim>\<open>messageSignature.MessageDigest.Digest\<close> reads a field through a
  pointer, so a nil \<^verbatim>\<open>MessageDigest\<close> panics.
\<close>

definition proposeEntry :: "env \<Rightarrow> Context \<Rightarrow> bytes \<Rightarrow> Bundle option \<Rightarrow> outcome + ProposedEntry" where
  "proposeEntry E ctx pubKeyPEM b =
     (let artifactProperties = ArtifactProperties_zero\<lparr>PublicKeyBytes := [pubKeyPEM]\<rparr>;
          dsseEnvelope = GetDsseEnvelope b;
          messageSignature = GetMessageSignature b;
          verificationMaterial = GetVerificationMaterial b;
          bundleCertificate = GetCertificate verificationMaterial
      in case dsseEnvelope of
           Some envelope \<Rightarrow>
             (case json_Marshal E envelope of
                Inl err \<Rightarrow> Inl (Return (Some err))
              | Inr artifactBytes \<Rightarrow>
                  (case dsse_CreateProposedEntry E ctx []
                          (artifactProperties\<lparr>ArtifactBytes := artifactBytes\<rparr>) of
                     Inl err \<Rightarrow> Inl (Return (Some err))
                   | Inr proposedEntry \<Rightarrow> Inr proposedEntry))
         | None \<Rightarrow>
             (case messageSignature of
                Some ms \<Rightarrow>
                  if bundleCertificate = None
                  then Inl (Return (Some (ErrorsNew ''hashedrekord requires X.509 certificate'')))
                  else
                    (case MessageDigest ms of
                       None \<Rightarrow> Inl Panic
                     | Some md \<Rightarrow>
                         (let hexDigest = EncodeToString (Digest md) in
                          case hashedrekord_CreateProposedEntry E ctx []
                                 (artifactProperties
                                    \<lparr>PKIFormat := pki_X509 E,
                                     SignatureBytes := Signature ms,
                                     ArtifactHash := PrefixSHA E hexDigest\<rparr>) of
                            Inl err \<Rightarrow> Inl (Return (Some err))
                          | Inr proposedEntry \<Rightarrow> Inr proposedEntry))
              | None \<Rightarrow> Inl (Return (Some (ErrorsNew ''unable to find signature in bundle'')))))"

text \<open>
  Lines 119 to 127: the request parameters. A zero \<^verbatim>\<open>Timeout\<close> is first overwritten in
  the options; \<^verbatim>\<open>SetTimeout\<close> is called only for a timeout that is not negative.
\<close>

definition createLogEntryParams ::
  "env \<Rightarrow> RekorOptions \<Rightarrow> Context \<Rightarrow> ProposedEntry \<Rightarrow> RekorOptions \<times> CreateLogEntryParams" where
  "createLogEntryParams E opts ctx proposedEntry =
     (let params = NewCreateLogEntryParams E;
          (opts1, params1) =
            (if 0 \<le> sint (Timeout opts)
             then (let opts' = (if Timeout opts = 0 then opts\<lparr>Timeout := 30 * Second\<rparr> else opts)
                   in (opts', params\<lparr>timeout := Timeout opts'\<rparr>))
             else (opts, params))
      in (opts1, params1\<lparr>ProposedEntry := Some proposedEntry, Context := Some ctx\<rparr>))"

text \<open>Lines 129 to 135: the client is built on first use and kept in the options.\<close>

definition materializeClient :: "env \<Rightarrow> RekorOptions \<Rightarrow> error + RekorOptions \<times> RekorClient" where
  "materializeClient E opts =
     (case Client opts of
        Some c \<Rightarrow> Inr (opts, c)
      | None \<Rightarrow>
          (case GetRekorClient E (BaseURL opts) (ConstructUserAgent E) (Retries opts) of
             Inl err \<Rightarrow> Inl err
           | Inr entries \<Rightarrow> Inr (opts\<lparr>Client := Some entries\<rparr>, entries)))"

text \<open>
  Lines 137 to 146: the submission, the entry the response holds under its tag (a key
  that is missing from a Go map reads as the zero value), and its conversion.
\<close>

definition fetchTlogEntry ::
  "env \<Rightarrow> RekorClient \<Rightarrow> CreateLogEntryParams \<Rightarrow> error + TransparencyLogEntry" where
  "fetchTlogEntry E client params =
     (case CreateLogEntry client params of
        Inl err \<Rightarrow> Inl err
      | Inr resp \<Rightarrow>
          (let entry = (case Payload resp (ETag resp) of
                          None \<Rightarrow> LogEntryAnon_zero
                        | Some e \<Rightarrow> e)
           in GenerateTransparencyLogEntry E entry))"

text \<open>
  Lines 148 to 152: \<^verbatim>\<open>b.VerificationMaterial.TlogEntries\<close> reads through two pointers
  with no getter, so a nil bundle or a nil verification material panics (\<open>None\<close>).
\<close>

definition appendTlogEntry :: "Bundle option \<Rightarrow> TransparencyLogEntry \<Rightarrow> Bundle option" where
  "appendTlogEntry b tlogEntry =
     (case b of
        None \<Rightarrow> None
      | Some x \<Rightarrow>
          (case VerificationMaterial x of
             None \<Rightarrow> None
           | Some vm \<Rightarrow>
               (let vm1 = (if TlogEntries vm = None then vm\<lparr>TlogEntries := Some []\<rparr> else vm);
                    vm2 = vm1\<lparr>TlogEntries := append_slice (TlogEntries vm1) tlogEntry\<rparr>
                in Some (x\<lparr>VerificationMaterial := Some vm2\<rparr>))))"

text \<open>
  The whole method. The state it can change is the options struct its receiver points to
  (\<open>None\<close>: \<^verbatim>\<open>NewRekor(nil)\<close>) and the bundle; both are returned as the call leaves them.
\<close>

definition GetTransparencyLogEntry ::
  "env \<Rightarrow> RekorOptions option \<Rightarrow> Context \<Rightarrow> bytes \<Rightarrow> Bundle option
     \<Rightarrow> outcome \<times> RekorOptions option \<times> Bundle option" where
  "GetTransparencyLogEntry E options ctx pubKeyPEM b =
     (case proposeEntry E ctx pubKeyPEM b of
        Inl out \<Rightarrow> (out, options, b)
      | Inr proposedEntry \<Rightarrow>
          (case options of
             None \<Rightarrow> (Panic, options, b)
           | Some opts \<Rightarrow>
               (let (opts1, params) = createLogEntryParams E opts ctx proposedEntry in
                case materializeClient E opts1 of
                  Inl err \<Rightarrow> (Return (Some err), Some opts1, b)
                | Inr (opts2, client) \<Rightarrow>
                    (case fetchTlogEntry E client params of
                       Inl err \<Rightarrow> (Return (Some err), Some opts2, b)
                     | Inr tlogEntry \<Rightarrow>
                         (case appendTlogEntry b tlogEntry of
                            None \<Rightarrow> (Panic, Some opts2, b)
                          | Some b' \<Rightarrow> (Return None, Some opts2, Some b'))))))"

subsection \<open>A stub transport and sample bundles\<close>

definition stubResponse :: CreateLogEntryCreated where
  "stubResponse =
     \<lparr>ETag = ''tag'', Location = ''/api/v1/log/entries/tag'',
      Payload = [''tag'' \<mapsto> \<lparr>Body = Some ''e30='', IntegratedTime = Some 1700000000,
                              LogID = Some ''c0d2'', LogIndex = Some 7\<rparr>]\<rparr>"

definition stubClient :: RekorClient where
  "stubClient = RekorClient (\<lambda>params. Inr stubResponse)"

definition failingClient :: RekorClient where
  "failingClient = RekorClient (\<lambda>params. Inl (ExternalError ''connection refused''))"

definition stubEnv :: env where
  "stubEnv =
     \<lparr>json_Marshal = (\<lambda>e. Inr (EnvelopePayload e)),
      dsse_CreateProposedEntry = (\<lambda>ctx path props. Inr \<lparr>Kind = ''dsse'', Spec = ArtifactBytes props\<rparr>),
      hashedrekord_CreateProposedEntry =
        (\<lambda>ctx path props. Inr \<lparr>Kind = ''hashedrekord'', Spec = SignatureBytes props\<rparr>),
      PrefixSHA = (\<lambda>h. ''sha256:'' @ h),
      pki_X509 = ''x509'',
      NewCreateLogEntryParams = \<lparr>ProposedEntry = None, timeout = 10 * Second, Context = None\<rparr>,
      ConstructUserAgent = ''sigstore-go'',
      GetRekorClient = (\<lambda>url agent retries. Inr stubClient),
      GenerateTransparencyLogEntry =
        (\<lambda>e. case LogIndex e of
                None \<Rightarrow> Inl (ExternalError ''no log index'')
              | Some i \<Rightarrow> Inr \<lparr>TleLogIndex = i, TleLogId = [], TleIntegratedTime = 0,
                              CanonicalizedBody = []\<rparr>)\<rparr>"

text \<open>
  The constructor that go-swagger generates for the Rekor client gives a request the
  client's default timeout, 30 seconds; this environment has that constructor. The slow
  client answers too late for any deadline: only a request that carries no timeout (a
  timeout of zero) gets its response.
\<close>

definition libraryEnv :: env where
  "libraryEnv =
     stubEnv\<lparr>NewCreateLogEntryParams :=
               \<lparr>ProposedEntry = None, timeout = 30 * Second, Context = None\<rparr>\<rparr>"

definition slowClient :: RekorClient where
  "slowClient =
     RekorClient (\<lambda>params. if timeout params = 0 then Inr stubResponse
                           else Inl (ExternalError ''context deadline exceeded''))"

definition sampleEnvelope :: Envelope where
  "sampleEnvelope = \<lparr>EnvelopePayload = [123, 125], PayloadType = ''application/vnd.in-toto+json'',
                     Signatures = [([1, 2, 3], ''key'')]\<rparr>"

definition sampleSignature :: MessageSignature where
  "sampleSignature = \<lparr>MessageDigest = Some \<lparr>Algorithm = 1, Digest = [171, 205]\<rparr>,
                      Signature = [4, 5, 6]\<rparr>"

definition oldEntry :: TransparencyLogEntry where
  "oldEntry = \<lparr>TleLogIndex = 3, TleLogId = [9], TleIntegratedTime = 1600000000,
               CanonicalizedBody = [1]\<rparr>"

definition newEntry :: TransparencyLogEntry where
  "newEntry = \<lparr>TleLogIndex = 7, TleLogId = [], TleIntegratedTime = 0, CanonicalizedBody = []\<rparr>"

definition certMaterial :: "TransparencyLogEntry list option \<Rightarrow> VerificationMaterial" where
  "certMaterial entries =
     \<lparr>VMContent = Some (VerificationMaterial_Certificate (Some \<lparr>RawBytes = [48, 130]\<rparr>)),
      TlogEntries = entries\<rparr>"

definition keyMaterial :: "TransparencyLogEntry list option \<Rightarrow> VerificationMaterial" where
  "keyMaterial entries = \<lparr>VMContent = Some (VerificationMaterial_PublicKey ''hint''), TlogEntries = entries\<rparr>"

definition dsseBundle :: "VerificationMaterial option \<Rightarrow> Bundle" where
  "dsseBundle vm =
     \<lparr>MediaType = ''application/vnd.dev.sigstore.bundle+json;version=0.3'',
      VerificationMaterial = vm, Content = Some (Bundle_DsseEnvelope (Some sampleEnvelope))\<rparr>"

definition signatureBundle :: "VerificationMaterial option \<Rightarrow> Bundle" where
  "signatureBundle vm =
     \<lparr>MediaType = ''application/vnd.dev.sigstore.bundle+json;version=0.3'',
      VerificationMaterial = vm, Content = Some (Bundle_MessageSignature (Some sampleSignature))\<rparr>"

definition unsignedBundle :: Bundle where
  "unsignedBundle =
     \<lparr>MediaType = ''application/vnd.dev.sigstore.bundle+json;version=0.3'',
      VerificationMaterial = Some (certMaterial None), Content = None\<rparr>"

definition sampleOptions :: "Duration \<Rightarrow> RekorClient option \<Rightarrow> RekorOptions" where
  "sampleOptions t c = \<lparr>BaseURL = ''https://rekor.sigstore.dev'', Timeout = t, Retries = 1, Client = c\<rparr>"

section \<open>The trust root (package root)\<close>

text \<open>
  Of package \<^verbatim>\<open>root\<close> the sources hold the test file only; the trusted root, its
  verifiers and the collection are not among them. Their definitions below are modelled
  from the specification, except \<open>singleKeyVerifier\<close>, which the test file declares.
\<close>

text \<open>
  Modelled from the spec: the errors of the trust root are missing from the sources.
  Section 7 names the kinds; these are the ones that concern the trust root.
\<close>

datatype ErrorKind = DecodeFailure | MalformedTrustRoot | UnsupportedAlgorithm | NoSuchKey

subsection \<open>Verifiers with a validity period\<close>

text \<open>Instants of time, counted in nanoseconds.\<close>

type_synonym Time = int

text \<open>
  Modelled from the spec: the types \<^verbatim>\<open>ValidityPeriod\<close> and \<^verbatim>\<open>TimeConstrainedVerifier\<close>
  are missing from the sources. Section 3: a validity period is a start and an end that
  may be absent, absent meaning unbounded; a verifier is a verifier capability (here its
  key material) with a validity period.
\<close>

record ValidityPeriod =
  ValidityPeriodStart :: Time
  ValidityPeriodEnd :: "Time option"

record TimeConstrainedVerifier =
  VerifierKey :: bytes
  Validity :: ValidityPeriod


subsection \<open>Collections of trusted material\<close>

text \<open>
  A member of a collection is anything that resolves a verifier by key identifier. The
  test file's \<^verbatim>\<open>singleKeyVerifier\<close> (lines 59 to 66) resolves every identifier to its
  one verifier.
\<close>

type_synonym 'v TrustedMaterial = "string \<Rightarrow> ErrorKind + 'v"

definition singleKeyVerifier :: "'v \<Rightarrow> 'v TrustedMaterial" where
  "singleKeyVerifier verifier = (\<lambda>keyID. Inr verifier)"

text \<open>
  Modelled from the spec: the method \<^verbatim>\<open>TrustedMaterialCollection.PublicKeyVerifier\<close> is
  missing from the sources. Section 4.2: it tries each member in sequence order and
  returns the first successful resolution; if every member fails, it returns the last
  member's error, or a generic \<^verbatim>\<open>NoSuchKey\<close> if the sequence is empty.
\<close>

fun TrustedMaterialCollection_PublicKeyVerifier ::
  "'v TrustedMaterial list \<Rightarrow> string \<Rightarrow> ErrorKind + 'v" where
  "TrustedMaterialCollection_PublicKeyVerifier [] keyID = Inl NoSuchKey"
| "TrustedMaterialCollection_PublicKeyVerifier (tm # tmc) keyID =
     (case tm keyID of
        Inr verifier \<Rightarrow> Inr verifier
      | Inl err \<Rightarrow>
          (if tmc = [] then Inl err else TrustedMaterialCollection_PublicKeyVerifier tmc keyID))"

text \<open>A member resolves an identifier when it returns a verifier and no error.\<close>

definition resolves :: "'v TrustedMaterial \<Rightarrow> string \<Rightarrow> bool" where
  "resolves tm keyID = (case tm keyID of Inl err \<Rightarrow> False | Inr verifier \<Rightarrow> True)"

subsection \<open>The wire document and the trusted root\<close>

text \<open>
  Modelled from the spec: the wire document of a trust root is missing from the sources.
  Section 6: a media type, arrays of certificate-authority chains, of transparency-log
  descriptors (public key, key details, log ID, validity window, URL), of CT-log
  descriptors of the same shape and of timestamping-authority chains; section 4.1 adds
  the fields the model does not interpret. The documents are generic in their time
  fields: \<open>WireTimestamp\<close> in JSON text, \<open>Timestamp\<close> once decoded.
\<close>

datatype 'ts TimeRange =
  TimeRange (RangeStart: 'ts) (RangeEnd: "'ts option")

datatype 'ts TransparencyLogInstance =
  TransparencyLogInstance (InstanceBaseUrl: string) (PublicKeyRaw: bytes) (KeyDetails: nat)
    (InstanceLogId: bytes) (LogValidFor: "'ts TimeRange")

datatype 'ts CertificateAuthority =
  CertificateAuthority (Uri: string) (CertChain: "bytes list") (ValidFor: "'ts TimeRange")

datatype 'ts TrustedRootDoc =
  TrustedRootDoc (DocMediaType: string) (Tlogs: "'ts TransparencyLogInstance list")
    (CertificateAuthorities: "'ts CertificateAuthority list")
    (Ctlogs: "'ts TransparencyLogInstance list")
    (TimestampAuthorities: "'ts CertificateAuthority list")
    (UnknownFields: "(string \<times> bytes) list")

text \<open>
  Modelled from the spec: the time fields of the wire format are missing from the
  sources. Section 6: a zero sub-second fraction may be omitted on the wire, and
  \<^verbatim>\<open>...Z\<close> and \<^verbatim>\<open>...000Z\<close> are to be treated as equal. A time field in JSON text is its
  seconds and the fraction as written (\<open>None\<close> when omitted); the test file (lines 226
  to 229) records that the encoder omits a fraction of zero.
\<close>

record WireTimestamp =
  WireSeconds :: int
  WireFraction :: "nat option"

record Timestamp =
  Seconds :: int
  Nanos :: nat

definition parseTimestamp :: "WireTimestamp \<Rightarrow> Timestamp" where
  "parseTimestamp w =
     \<lparr>Seconds = WireSeconds w, Nanos = (case WireFraction w of None \<Rightarrow> 0 | Some n \<Rightarrow> n)\<rparr>"

definition printTimestamp :: "Timestamp \<Rightarrow> WireTimestamp" where
  "printTimestamp t =
     \<lparr>WireSeconds = Seconds t, WireFraction = (if Nanos t = 0 then None else Some (Nanos t))\<rparr>"

definition sameInstant :: "WireTimestamp \<Rightarrow> WireTimestamp \<Rightarrow> bool" where
  "sameInstant a b =
     (WireSeconds a = WireSeconds b
      \<and> (case WireFraction a of None \<Rightarrow> 0 | Some n \<Rightarrow> n)
          = (case WireFraction b of None \<Rightarrow> 0 | Some n \<Rightarrow> n))"

text \<open>
  Modelled from the spec: the semantic equality of wire documents, which the test file
  delegates to a JSON comparison after trimming the fractions. Sections 6 and 8: two
  documents are semantically equal when they are the same document up to time fields
  that denote the same instant.
\<close>

definition semanticallyEqual ::
  "WireTimestamp TrustedRootDoc \<Rightarrow> WireTimestamp TrustedRootDoc \<Rightarrow> bool" where
  "semanticallyEqual d d' = rel_TrustedRootDoc sameInstant d d'"

text \<open>
  Modelled from the spec: the type \<^verbatim>\<open>TrustedRoot\<close> and its constructors are missing
  from the sources. Section 3: the root holds its entries, the logs in mappings keyed by
  an identifier derived from the entry's public key, and the original wire value. The
  test file reads the fields \<^verbatim>\<open>trustedRoot\<close>, \<^verbatim>\<open>rekorLogs\<close>, \<^verbatim>\<open>ctLogs\<close>,
  \<^verbatim>\<open>certificateAuthorities\<close> and \<^verbatim>\<open>timestampingAuthorities\<close>. Section 4.1: construction
  checks that the media type is a recognized version, computes the key of every entry
  and rejects two entries of one category with the same key as \<^verbatim>\<open>MalformedTrustRoot\<close>;
  parsing from the wire decodes first and validates the same way. The digests that give
  the keys are collaborators, taken as parameters.
\<close>

record TrustedRoot =
  trustedRoot :: "Timestamp TrustedRootDoc"
  certificateAuthorities :: "Timestamp CertificateAuthority list"
  ctLogs :: "string \<rightharpoonup> Timestamp TransparencyLogInstance"
  timestampingAuthorities :: "Timestamp CertificateAuthority list"
  rekorLogs :: "string \<rightharpoonup> Timestamp TransparencyLogInstance"

record keyDerivation =
  logKey :: "bytes \<Rightarrow> string"
  authorityKey :: "bytes list \<Rightarrow> string"

text \<open>
  Modelled from the spec: the constant \<^verbatim>\<open>TrustedRootMediaType01\<close>, which the test file
  uses, is missing from the sources. Section 6 gives the media type of version 0.1.
\<close>

definition TrustedRootMediaType01 :: string where
  "TrustedRootMediaType01 = ''application/vnd.dev.sigstore.trustedroot+json;version=0.1''"

text \<open>
  Modelled from the spec: the computation of the lookup keys is missing from the
  sources. Section 4.1: the key of an entry is derived from a digest of its public key
  encoding, not from a separately supplied identifier.
\<close>

definition logKeys :: "keyDerivation \<Rightarrow> 'ts TransparencyLogInstance list \<Rightarrow> string list" where
  "logKeys K ls = map (\<lambda>l. logKey K (PublicKeyRaw l)) ls"

definition authorityKeys :: "keyDerivation \<Rightarrow> 'ts CertificateAuthority list \<Rightarrow> string list" where
  "authorityKeys K cs = map (\<lambda>c. authorityKey K (CertChain c)) cs"

text \<open>
  Modelled from the spec: \<^verbatim>\<open>NewTrustedRootFromProtobuf\<close> is missing from the sources.
  Section 4.1: recognized media type, keys computed, duplicate keys within a category
  rejected; the root keeps the wire value it was built from.
\<close>

definition NewTrustedRootFromProtobuf ::
  "keyDerivation \<Rightarrow> Timestamp TrustedRootDoc \<Rightarrow> ErrorKind + TrustedRoot" where
  "NewTrustedRootFromProtobuf K p =
     (if DocMediaType p \<noteq> TrustedRootMediaType01 then Inl MalformedTrustRoot
      else if \<not> distinct (authorityKeys K (CertificateAuthorities p))
              \<or> \<not> distinct (logKeys K (Tlogs p))
              \<or> \<not> distinct (logKeys K (Ctlogs p))
              \<or> \<not> distinct (authorityKeys K (TimestampAuthorities p))
      then Inl MalformedTrustRoot
      else Inr \<lparr>trustedRoot = p,
                certificateAuthorities = CertificateAuthorities p,
                ctLogs = map_of (zip (logKeys K (Ctlogs p)) (Ctlogs p)),
                timestampingAuthorities = TimestampAuthorities p,
                rekorLogs = map_of (zip (logKeys K (Tlogs p)) (Tlogs p))\<rparr>)"

text \<open>
  Modelled from the spec: \<^verbatim>\<open>NewTrustedRootFromJSON\<close> is missing from the sources.
  Section 4.1: decode into the intermediate wire value, then validate the same way. The
  documents of the model are decoded ones, so \<^verbatim>\<open>DecodeFailure\<close> does not arise here.
\<close>

definition NewTrustedRootFromJSON ::
  "keyDerivation \<Rightarrow> WireTimestamp TrustedRootDoc \<Rightarrow> ErrorKind + TrustedRoot" where
  "NewTrustedRootFromJSON K d = NewTrustedRootFromProtobuf K (map_TrustedRootDoc parseTimestamp d)"

text \<open>
  Modelled from the spec: the overlay of the logs a root manages onto the array of the
  retained wire value is missing from the sources. Section 9: the interpreted fields are
  patched into a copy of the original; section 3: the keys are derived again on save. An
  entry of the array is replaced by the log the root holds under the entry's key; an
  entry whose key the root does not hold stays.
\<close>

definition overlayLogs ::
  "keyDerivation \<Rightarrow> (string \<rightharpoonup> 'ts TransparencyLogInstance)
     \<Rightarrow> 'ts TransparencyLogInstance list \<Rightarrow> 'ts TransparencyLogInstance list" where
  "overlayLogs K logs ls =
     map (\<lambda>l. case logs (logKey K (PublicKeyRaw l)) of None \<Rightarrow> l | Some l' \<Rightarrow> l') ls"

text \<open>
  Modelled from the spec: the serialization of a trusted root is missing from the
  sources. Section 4.1: it re-emits the originally parsed wire value, overlaying the
  fields the root manages: its certificate authorities, its rekor logs, its CT logs and
  its timestamping authorities. The media type and the fields the model does not
  interpret come from the retained value.
\<close>

definition MarshalJSON :: "keyDerivation \<Rightarrow> TrustedRoot \<Rightarrow> WireTimestamp TrustedRootDoc" where
  "MarshalJSON K tr =
     map_TrustedRootDoc printTimestamp
       (TrustedRootDoc (DocMediaType (trustedRoot tr))
          (overlayLogs K (rekorLogs tr) (Tlogs (trustedRoot tr)))
          (certificateAuthorities tr)
          (overlayLogs K (ctLogs tr) (Ctlogs (trustedRoot tr)))
          (timestampingAuthorities tr)
          (UnknownFields (trustedRoot tr)))"

subsection \<open>Sample trust material\<close>

definition sampleKeys :: keyDerivation where
  "sampleKeys = \<lparr>logKey = EncodeToString, authorityKey = (\<lambda>chain. EncodeToString (concat chain))\<rparr>"

definition sampleDoc :: "WireTimestamp TrustedRootDoc" where
  "sampleDoc =
     TrustedRootDoc TrustedRootMediaType01
       [TransparencyLogInstance ''https://rekor.sigstore.dev'' [192, 210] 5 [192, 210]
          (TimeRange \<lparr>WireSeconds = 1610000000, WireFraction = Some 0\<rparr> None),
        TransparencyLogInstance ''https://rekor.example.org'' [7, 9] 7 [7, 9]
          (TimeRange \<lparr>WireSeconds = 1650000000, WireFraction = None\<rparr> None)]
       [CertificateAuthority ''https://fulcio.sigstore.dev'' [[48, 1], [48, 2]]
          (TimeRange \<lparr>WireSeconds = 1615000000, WireFraction = None\<rparr>
             (Some \<lparr>WireSeconds = 1670000000, WireFraction = Some 0\<rparr>))]
       [TransparencyLogInstance ''https://ctfe.sigstore.dev/test'' [221, 61] 5 [221, 61]
          (TimeRange \<lparr>WireSeconds = 1616000000, WireFraction = Some 500000000\<rparr> None)]
       []
       [(''vendorExtension'', [1, 2, 3])]"

definition sampleVerifier :: "Time option \<Rightarrow> TimeConstrainedVerifier" where
  "sampleVerifier e =
     \<lparr>VerifierKey = [192, 210],
      Validity = \<lparr>ValidityPeriodStart = 1610000000000000000, ValidityPeriodEnd = e\<rparr>\<rparr>"

definition noSuchKey :: "'v TrustedMaterial" where
  "noSuchKey = (\<lambda>keyID. Inl NoSuchKey)"

definition unsupported :: "'v TrustedMaterial" where
  "unsupported = (\<lambda>keyID. Inl UnsupportedAlgorithm)"

section \<open>Properties of the submission\<close>

lemmas sample_defs =
  stubResponse_def stubClient_def failingClient_def stubEnv_def libraryEnv_def slowClient_def sampleEnvelope_def
  sampleSignature_def oldEntry_def newEntry_def certMaterial_def keyMaterial_def
  dsseBundle_def signatureBundle_def unsignedBundle_def sampleOptions_def

lemmas getter_defs =
  GetDsseEnvelope_def GetMessageSignature_def GetVerificationMaterial_def GetCertificate_def

lemmas method_defs =
  GetTransparencyLogEntry_def proposeEntry_def createLogEntryParams_def materializeClient_def
  fetchTlogEntry_def appendTlogEntry_def append_slice_def ArtifactProperties_zero_def
  LogEntryAnon_zero_def Second_def Let_def

lemma message_signature_not_envelope:
  "GetMessageSignature b = Some ms \<Longrightarrow> GetDsseEnvelope b = None"
  by (auto simp: GetMessageSignature_def GetDsseEnvelope_def
           split: option.splits Bundle_Content.splits)

text \<open>
  Claim C4. A bundle whose signature content is a message signature and whose
  verification material carries no X.509 certificate (none at all included): the call
  returns the error "hashedrekord requires X.509 certificate" and leaves the options and
  the bundle, so also its transparency-log entries, as they were.
\<close>

theorem missing_certificate:
  assumes "GetMessageSignature b = Some ms"
    and "GetCertificate (GetVerificationMaterial b) = None"
  shows "GetTransparencyLogEntry E options ctx pubKeyPEM b =
           (Return (Some (ErrorsNew ''hashedrekord requires X.509 certificate'')), options, b)"
  using assms message_signature_not_envelope [OF assms(1)]
  by (simp add: GetTransparencyLogEntry_def proposeEntry_def)

theorem missing_certificate_witness:
  "GetMessageSignature (Some (signatureBundle (Some (keyMaterial (Some [oldEntry])))))
     = Some sampleSignature
   \<and> GetCertificate (GetVerificationMaterial
        (Some (signatureBundle (Some (keyMaterial (Some [oldEntry])))))) = None
   \<and> GetTransparencyLogEntry stubEnv (Some (sampleOptions 0 None)) (Ctx 0) [1]
        (Some (signatureBundle (Some (keyMaterial (Some [oldEntry])))))
     = (Return (Some (ErrorsNew ''hashedrekord requires X.509 certificate'')),
        Some (sampleOptions 0 None),
        Some (signatureBundle (Some (keyMaterial (Some [oldEntry])))))"
proof -
  let ?b = "Some (signatureBundle (Some (keyMaterial (Some [oldEntry]))))"
  have h1: "GetMessageSignature ?b = Some sampleSignature"
    by (simp add: getter_defs signatureBundle_def)
  have h2: "GetCertificate (GetVerificationMaterial ?b) = None"
    by (simp add: getter_defs signatureBundle_def keyMaterial_def)
  show ?thesis
    using h1 h2 missing_certificate [OF h1 h2, of stubEnv "Some (sampleOptions 0 None)" "Ctx 0" "[1]"]
    by simp
qed

text \<open>
  Claim C5. Whenever the call returns an error that is not nil, at whichever point it
  fails, the bundle it leaves is the bundle it was given: nothing was appended.
\<close>

theorem error_leaves_bundle:
  assumes "fst (GetTransparencyLogEntry E options ctx pubKeyPEM b) = Return (Some err)"
  shows "snd (snd (GetTransparencyLogEntry E options ctx pubKeyPEM b)) = b"
  using assms
  by (auto simp: GetTransparencyLogEntry_def split: sum.splits option.splits prod.splits)

theorem error_leaves_bundle_witness:
  "fst (GetTransparencyLogEntry stubEnv (Some (sampleOptions 0 (Some failingClient))) (Ctx 0) [1]
          (Some (dsseBundle (Some (keyMaterial (Some [oldEntry]))))))
     = Return (Some (ExternalError ''connection refused''))
   \<and> snd (snd (GetTransparencyLogEntry stubEnv (Some (sampleOptions 0 (Some failingClient)))
          (Ctx 0) [1] (Some (dsseBundle (Some (keyMaterial (Some [oldEntry])))))))
     = Some (dsseBundle (Some (keyMaterial (Some [oldEntry]))))"
proof -
  have h: "fst (GetTransparencyLogEntry stubEnv (Some (sampleOptions 0 (Some failingClient)))
                 (Ctx 0) [1] (Some (dsseBundle (Some (keyMaterial (Some [oldEntry]))))))
           = Return (Some (ExternalError ''connection refused''))"
    by (simp add: method_defs getter_defs sample_defs)
  show ?thesis
    using h error_leaves_bundle [OF h] by simp
qed







lemma thirty_seconds: "sint (30 * Second) = 30000000000"
  by (simp add: Second_def)

lemma GetTransparencyLogEntry_submits:
  assumes "proposeEntry E ctx pubKeyPEM b = Inr proposedEntry"
    and "createLogEntryParams E opts ctx proposedEntry = (opts1, params)"
    and "materializeClient E opts1 = Inr (opts2, client)"
  shows "GetTransparencyLogEntry E (Some opts) ctx pubKeyPEM b =
           (case fetchTlogEntry E client params of
              Inl err \<Rightarrow> (Return (Some err), Some opts2, b)
            | Inr tlogEntry \<Rightarrow>
                (case appendTlogEntry b tlogEntry of
                   None \<Rightarrow> (Panic, Some opts2, b)
                 | Some b' \<Rightarrow> (Return None, Some opts2, Some b')))"
  using assms by (simp add: GetTransparencyLogEntry_def)

lemma envelope_proposed:
  assumes "GetDsseEnvelope b = Some envelope"
    and "json_Marshal E envelope = Inr artifactBytes"
    and "dsse_CreateProposedEntry E ctx []
           (ArtifactProperties_zero\<lparr>PublicKeyBytes := [pubKeyPEM], ArtifactBytes := artifactBytes\<rparr>)
         = Inr proposedEntry"
  shows "proposeEntry E ctx pubKeyPEM b = Inr proposedEntry"
  using assms by (simp add: proposeEntry_def Let_def)

text \<open>
  Claim C10. A bundle with a DSSE envelope and a nil verification material passes the
  checks (its proposed entry depends on the envelope alone), and once the submission and
  the conversion of the entry have succeeded, the call panics at the append instead of
  returning.
\<close>

theorem nil_verification_material_panics:
  assumes "GetDsseEnvelope b = Some envelope"
    and "GetVerificationMaterial b = None"
    and "json_Marshal E envelope = Inr artifactBytes"
    and "dsse_CreateProposedEntry E ctx []
           (ArtifactProperties_zero\<lparr>PublicKeyBytes := [pubKeyPEM], ArtifactBytes := artifactBytes\<rparr>)
         = Inr proposedEntry"
    and "createLogEntryParams E opts ctx proposedEntry = (opts1, params)"
    and "materializeClient E opts1 = Inr (opts2, client)"
    and "fetchTlogEntry E client params = Inr tlogEntry"
  shows "GetTransparencyLogEntry E (Some opts) ctx pubKeyPEM b = (Panic, Some opts2, b)"
proof -
  have "appendTlogEntry b tlogEntry = None"
    using assms(2)
    by (cases b) (simp_all add: appendTlogEntry_def GetVerificationMaterial_def)
  with GetTransparencyLogEntry_submits [OF envelope_proposed [OF assms(1,3,4)] assms(5,6)] assms(7)
  show ?thesis by simp
qed


theorem nil_verification_material_panics_witness:
  "GetDsseEnvelope (Some (dsseBundle None)) = Some sampleEnvelope
   \<and> GetVerificationMaterial (Some (dsseBundle None)) = None
   \<and> GetTransparencyLogEntry stubEnv (Some (sampleOptions (5 * Second) (Some stubClient)))
        (Ctx 0) [1] (Some (dsseBundle None))
     = (Panic, Some (sampleOptions (5 * Second) (Some stubClient)), Some (dsseBundle None))"
proof -
  let ?opts = "sampleOptions (5 * Second) (Some stubClient)"
  let ?pe = "\<lparr>Kind = ''dsse'', Spec = [123, 125]\<rparr>"
  let ?params = "\<lparr>ProposedEntry = Some ?pe, timeout = 5 * Second, Context = Some (Ctx 0)\<rparr>"
  have h1: "GetDsseEnvelope (Some (dsseBundle None)) = Some sampleEnvelope"
    by (simp add: GetDsseEnvelope_def dsseBundle_def)
  have h2: "GetVerificationMaterial (Some (dsseBundle None)) = None"
    by (simp add: GetVerificationMaterial_def dsseBundle_def)
  have h3: "json_Marshal stubEnv sampleEnvelope = Inr [123, 125]"
    by (simp add: stubEnv_def sampleEnvelope_def)
  have h4: "dsse_CreateProposedEntry stubEnv (Ctx 0) []
              (ArtifactProperties_zero\<lparr>PublicKeyBytes := [[1]], ArtifactBytes := [123, 125]\<rparr>)
            = Inr ?pe"
    by (simp add: stubEnv_def ArtifactProperties_zero_def)
  have h5: "createLogEntryParams stubEnv ?opts (Ctx 0) ?pe = (?opts, ?params)"
    by (simp add: createLogEntryParams_def sampleOptions_def stubEnv_def Second_def Let_def)
  have h6: "materializeClient stubEnv ?opts = Inr (?opts, stubClient)"
    by (simp add: materializeClient_def sampleOptions_def)
  have h7: "fetchTlogEntry stubEnv stubClient ?params = Inr newEntry"
    by (simp add: fetchTlogEntry_def stubClient_def stubResponse_def stubEnv_def newEntry_def)
  from h1 h2 nil_verification_material_panics [OF h1 h2 h3 h4 h5 h6 h7]
  show ?thesis by simp
qed

lemma thirty_seconds_not_zero: "30 * Second \<noteq> 0"
  by (simp add: Second_def)

text \<open>
  Claim C9, as stated, fails: a call made with a zero \<open>Timeout\<close> and a nil \<open>Client\<close> on a
  bundle that holds no signature returns at line 116, before the options are touched,
  and leaves \<open>Timeout\<close> at zero and \<open>Client\<close> nil.
\<close>

theorem early_return_keeps_options:
  "Timeout (sampleOptions 0 None) = 0
   \<and> Timeout (sampleOptions 0 None) \<noteq> 30 * Second
   \<and> Client (sampleOptions 0 None) = None
   \<and> GetTransparencyLogEntry stubEnv (Some (sampleOptions 0 None)) (Ctx 0) [1]
        (Some unsignedBundle)
     = (Return (Some (ErrorsNew ''unable to find signature in bundle'')),
        Some (sampleOptions 0 None), Some unsignedBundle)"
  by (simp add: method_defs getter_defs sample_defs)

lemma materializeClient_options:
  "materializeClient E opts = Inr (opts2, client) \<Longrightarrow>
     opts2 = opts\<lparr>Client := Some client\<rparr>
     \<and> (case Client opts of
          Some c \<Rightarrow> client = c
        | None \<Rightarrow> GetRekorClient E (BaseURL opts) (ConstructUserAgent E) (Retries opts) = Inr client)"
  by (auto simp: materializeClient_def split: option.splits sum.splits)

lemma materializeClient_error:
  "materializeClient E opts = Inl err \<Longrightarrow>
     Client opts = None
     \<and> GetRekorClient E (BaseURL opts) (ConstructUserAgent E) (Retries opts) = Inl err"
  by (auto simp: materializeClient_def split: option.splits sum.splits)


lemma createLogEntryParams_eq:
  "createLogEntryParams E opts ctx proposedEntry =
     (opts\<lparr>Timeout := (if Timeout opts = 0 then 30 * Second else Timeout opts)\<rparr>,
      (NewCreateLogEntryParams E)
        \<lparr>timeout := (if sint (Timeout opts) < 0 then timeout (NewCreateLogEntryParams E)
                     else if Timeout opts = 0 then 30 * Second else Timeout opts),
         ProposedEntry := Some proposedEntry, Context := Some ctx\<rparr>)"
  by (simp add: createLogEntryParams_def Let_def)

lemma options_unreached:
  "proposeEntry E ctx pubKeyPEM b = Inl out \<Longrightarrow>
     GetTransparencyLogEntry E options ctx pubKeyPEM b = (out, options, b)"
  by (simp add: GetTransparencyLogEntry_def)

lemma options_reached:
  assumes "proposeEntry E ctx pubKeyPEM b = Inr proposedEntry"
  shows "fst (snd (GetTransparencyLogEntry E (Some opts) ctx pubKeyPEM b)) =
           Some (opts\<lparr>Timeout := (if Timeout opts = 0 then 30 * Second else Timeout opts),
                      Client := (case Client opts of
                                   Some c \<Rightarrow> Some c
                                 | None \<Rightarrow>
                                     (case GetRekorClient E (BaseURL opts) (ConstructUserAgent E)
                                             (Retries opts) of
                                        Inl err \<Rightarrow> None
                                      | Inr c \<Rightarrow> Some c))\<rparr>)"
proof -
  let ?opts1 = "opts\<lparr>Timeout := (if Timeout opts = 0 then 30 * Second else Timeout opts)\<rparr>"
  obtain params where cp: "createLogEntryParams E opts ctx proposedEntry = (?opts1, params)"
    by (simp add: createLogEntryParams_eq)
  show ?thesis
  proof (cases "materializeClient E ?opts1")
    case (Inl err)
    from materializeClient_error [OF Inl] assms cp Inl show ?thesis
      by (simp add: GetTransparencyLogEntry_def)
  next
    case (Inr r)
    obtain opts2 client where r: "r = (opts2, client)"
      by (cases r)
    from materializeClient_options [OF Inr [unfolded r]]
    have "opts2 = ?opts1\<lparr>Client := (case Client opts of
                                   Some c \<Rightarrow> Some c
                                 | None \<Rightarrow>
                                     (case GetRekorClient E (BaseURL opts) (ConstructUserAgent E)
                                             (Retries opts) of
                                        Inl err \<Rightarrow> None
                                      | Inr c \<Rightarrow> Some c))\<rparr>"
      by (auto split: option.splits)
    moreover have "fst (snd (GetTransparencyLogEntry E (Some opts) ctx pubKeyPEM b)) = Some opts2"
      using GetTransparencyLogEntry_submits [OF assms cp Inr [unfolded r]]
      by (simp split: sum.splits option.splits)
    ultimately show ?thesis by simp
  qed
qed


lemma options_settled:
  assumes "Timeout opts \<noteq> 0" and "Client opts = Some c"
  shows "fst (snd (GetTransparencyLogEntry E (Some opts) ctx pubKeyPEM b)) = Some opts"
proof (cases "proposeEntry E ctx pubKeyPEM b")
  case (Inl out)
  then show ?thesis by (simp add: options_unreached)
next
  case (Inr proposedEntry)
  from options_reached [OF Inr, of opts] assms show ?thesis by simp
qed

text \<open>
  Claim C9, amended. The call changes the options only once the proposed entry has been
  built. A call that ends before (an error or a panic of lines 71 to 117) leaves them as
  they were. A call that gets past that point overwrites a zero \<open>Timeout\<close> with 30
  seconds and leaves any other \<open>Timeout\<close>; it stores into a nil \<open>Client\<close> the client that
  \<^verbatim>\<open>GetRekorClient\<close> built, if it built one, and leaves any other \<open>Client\<close>. \<open>BaseURL\<close>
  and \<open>Retries\<close> never change. Later calls through the same options see the new values:
  their request carries the stored \<open>Timeout\<close> when it is not negative, they use the
  stored client without building one, and with a client stored they change the options
  no more.
\<close>

theorem options_mutation:
  assumes "fst (snd (GetTransparencyLogEntry E (Some opts) ctx pubKeyPEM b)) = options1"
  shows "\<exists>opts1. options1 = Some opts1
           \<and> BaseURL opts1 = BaseURL opts \<and> Retries opts1 = Retries opts
           \<and> (case proposeEntry E ctx pubKeyPEM b of
                Inl out \<Rightarrow> opts1 = opts
              | Inr proposedEntry \<Rightarrow>
                  Timeout opts1 = (if Timeout opts = 0 then 30 * Second else Timeout opts)
                  \<and> Client opts1 =
                      (case Client opts of
                         Some c \<Rightarrow> Some c
                       | None \<Rightarrow>
                           (case GetRekorClient E (BaseURL opts) (ConstructUserAgent E)
                                   (Retries opts) of
                              Inl err \<Rightarrow> None
                            | Inr c \<Rightarrow> Some c))
                  \<and> (\<forall>E' ctx' proposedEntry'.
                        timeout (snd (createLogEntryParams E' opts1 ctx' proposedEntry')) =
                          (if sint (Timeout opts1) < 0 then timeout (NewCreateLogEntryParams E')
                           else Timeout opts1))
                  \<and> (\<forall>E' c. Client opts1 = Some c \<longrightarrow>
                        materializeClient E' opts1 = Inr (opts1, c))
                  \<and> (\<forall>E' ctx' pubKeyPEM' b'. Client opts1 \<noteq> None \<longrightarrow>
                        fst (snd (GetTransparencyLogEntry E' (Some opts1) ctx' pubKeyPEM' b'))
                          = Some opts1))"
proof (cases "proposeEntry E ctx pubKeyPEM b")
  case (Inl out)
  with assms show ?thesis
    by (auto simp: options_unreached)
next
  case (Inr proposedEntry)
  let ?opts1 = "opts\<lparr>Timeout := (if Timeout opts = 0 then 30 * Second else Timeout opts),
                      Client := (case Client opts of
                                   Some c \<Rightarrow> Some c
                                 | None \<Rightarrow>
                                     (case GetRekorClient E (BaseURL opts) (ConstructUserAgent E)
                                             (Retries opts) of
                                        Inl err \<Rightarrow> None
                                      | Inr c \<Rightarrow> Some c))\<rparr>"
  from options_reached [OF Inr, of opts] assms have o1: "options1 = Some ?opts1"
    by simp
  have t: "Timeout ?opts1 \<noteq> 0"
    using thirty_seconds_not_zero by simp
  have a: "\<forall>E' ctx' proposedEntry'.
             timeout (snd (createLogEntryParams E' ?opts1 ctx' proposedEntry')) =
               (if sint (Timeout ?opts1) < 0 then timeout (NewCreateLogEntryParams E')
                else Timeout ?opts1)"
    using t by (simp add: createLogEntryParams_eq)
  have b: "\<forall>E' c. Client ?opts1 = Some c \<longrightarrow> materializeClient E' ?opts1 = Inr (?opts1, c)"
    by (simp add: materializeClient_def)
  have c: "\<forall>E' ctx' pubKeyPEM' b'. Client ?opts1 \<noteq> None \<longrightarrow>
             fst (snd (GetTransparencyLogEntry E' (Some ?opts1) ctx' pubKeyPEM' b')) = Some ?opts1"
    using options_settled [OF t] by blast
  have d: "BaseURL ?opts1 = BaseURL opts \<and> Retries ?opts1 = Retries opts
           \<and> Timeout ?opts1 = (if Timeout opts = 0 then 30 * Second else Timeout opts)
           \<and> Client ?opts1 = (case Client opts of
                                   Some c \<Rightarrow> Some c
                                 | None \<Rightarrow>
                                     (case GetRekorClient E (BaseURL opts) (ConstructUserAgent E)
                                             (Retries opts) of
                                        Inl err \<Rightarrow> None
                                      | Inr c \<Rightarrow> Some c))"
    by simp
  show ?thesis
    unfolding Inr sum.case
    using o1 a b c d by blast
qed

theorem options_mutation_witness:
  "fst (snd (GetTransparencyLogEntry stubEnv (Some (sampleOptions 0 None)) (Ctx 0) [1]
               (Some (dsseBundle (Some (keyMaterial None))))))
     = Some (sampleOptions (30 * Second) (Some stubClient))
   \<and> fst (snd (GetTransparencyLogEntry stubEnv (Some (sampleOptions (30 * Second) (Some stubClient)))
               (Ctx 1) [2] (Some (signatureBundle (Some (certMaterial None))))))
     = Some (sampleOptions (30 * Second) (Some stubClient))
   \<and> timeout (snd (createLogEntryParams stubEnv (sampleOptions (30 * Second) (Some stubClient))
                   (Ctx 1) \<lparr>Kind = ''hashedrekord'', Spec = [4, 5, 6]\<rparr>))
     = 30 * Second"
proof -
  let ?b = "Some (dsseBundle (Some (keyMaterial None)))"
  have h: "fst (snd (GetTransparencyLogEntry stubEnv (Some (sampleOptions 0 None)) (Ctx 0) [1] ?b))
           = Some (sampleOptions (30 * Second) (Some stubClient))"
    by (simp add: method_defs getter_defs sample_defs)
  have p: "proposeEntry stubEnv (Ctx 0) [1] ?b = Inr \<lparr>Kind = ''dsse'', Spec = [123, 125]\<rparr>"
    by (simp add: method_defs getter_defs sample_defs)
  have s: "sint (Timeout (sampleOptions (30 * Second) (Some stubClient))) = 30000000000"
    by (simp add: sampleOptions_def Second_def)
  from options_mutation [OF h, unfolded p sum.case] h s show ?thesis
    by (auto simp: sampleOptions_def)
qed

text \<open>
  The request the method submits: the client is called with the constructor's
  parameters, the proposed entry and the context, and with the timeout set to 30 seconds
  for a zero \<open>Timeout\<close> and to \<open>Timeout\<close> for a positive one. For a negative \<open>Timeout\<close> the
  timeout is the one the constructor gave.
\<close>

lemma submitted_request:
  assumes "proposeEntry E ctx pubKeyPEM b = Inr proposedEntry"
    and "materializeClient E
           (opts\<lparr>Timeout := (if Timeout opts = 0 then 30 * Second else Timeout opts)\<rparr>)
         = Inr (opts2, client)"
  shows "GetTransparencyLogEntry E (Some opts) ctx pubKeyPEM b =
           (case CreateLogEntry client
                   ((NewCreateLogEntryParams E)
                      \<lparr>timeout := (if sint (Timeout opts) < 0
                                    then timeout (NewCreateLogEntryParams E)
                                    else if Timeout opts = 0 then 30 * Second
                                    else Timeout opts),
                       ProposedEntry := Some proposedEntry, Context := Some ctx\<rparr>) of
              Inl err \<Rightarrow> (Return (Some err), Some opts2, b)
            | Inr resp \<Rightarrow>
                (case GenerateTransparencyLogEntry E
                        (case Payload resp (ETag resp) of
                           None \<Rightarrow> LogEntryAnon_zero
                         | Some e \<Rightarrow> e) of
                   Inl err \<Rightarrow> (Return (Some err), Some opts2, b)
                 | Inr tlogEntry \<Rightarrow>
                     (case appendTlogEntry b tlogEntry of
                        None \<Rightarrow> (Panic, Some opts2, b)
                      | Some b' \<Rightarrow> (Return None, Some opts2, Some b'))))"
  using GetTransparencyLogEntry_submits [OF assms(1) createLogEntryParams_eq assms(2)]
  by (simp add: fetchTlogEntry_def Let_def split: sum.splits)

text \<open>
  Claim C7 holds for a zero and for a positive \<open>Timeout\<close> and fails for a negative one.
  The comment of the field \<open>Timeout\<close> (line 58) and the claim say that a negative value
  means no timeout; the method only skips \<^verbatim>\<open>SetTimeout\<close>, so the request keeps the
  timeout of its constructor. With the constructor of the Rekor client, a call with
  \<open>Timeout\<close> -1 to a log that answers too late for any deadline ends with the deadline
  exceeded, exactly as a call with \<open>Timeout\<close> 0 does, although a request with no
  timeout would have got its response.
\<close>

theorem negative_timeout_keeps_default:
  "sint (Timeout (sampleOptions (- 1) (Some slowClient))) < 0
   \<and> GetTransparencyLogEntry libraryEnv (Some (sampleOptions (- 1) (Some slowClient))) (Ctx 0) [1]
        (Some (dsseBundle (Some (keyMaterial None))))
     = (Return (Some (ExternalError ''context deadline exceeded'')),
        Some (sampleOptions (- 1) (Some slowClient)),
        Some (dsseBundle (Some (keyMaterial None))))
   \<and> GetTransparencyLogEntry libraryEnv (Some (sampleOptions 0 (Some slowClient))) (Ctx 0) [1]
        (Some (dsseBundle (Some (keyMaterial None))))
     = (Return (Some (ExternalError ''context deadline exceeded'')),
        Some (sampleOptions (30 * Second) (Some slowClient)),
        Some (dsseBundle (Some (keyMaterial None))))
   \<and> CreateLogEntry slowClient
        \<lparr>ProposedEntry = Some \<lparr>Kind = ''dsse'', Spec = [123, 125]\<rparr>, timeout = 0,
         Context = Some (Ctx 0)\<rparr>
     = Inr stubResponse"
  by (simp add: method_defs getter_defs sample_defs)

section \<open>Properties of the trust root\<close>




lemma collection_all_fail:
  assumes "\<forall>tm \<in> set tmc. \<not> resolves tm keyID"
  shows "TrustedMaterialCollection_PublicKeyVerifier tmc keyID =
           (if tmc = [] then Inl NoSuchKey else last tmc keyID)"
  using assms
  by (induction tmc) (auto simp: resolves_def split: sum.splits)

lemma collection_first:
  assumes "\<forall>tm \<in> set pre. \<not> resolves tm keyID" and "resolves tm keyID"
  shows "TrustedMaterialCollection_PublicKeyVerifier (pre @ tm # post) keyID = tm keyID"
  using assms
  by (induction pre) (auto simp: resolves_def split: sum.splits)

lemma find_split:
  "find P xs = Some x \<Longrightarrow> \<exists>pre post. xs = pre @ x # post \<and> (\<forall>y \<in> set pre. \<not> P y) \<and> P x"
proof (induction xs)
  case Nil
  then show ?case by simp
next
  case (Cons a xs)
  show ?case
  proof (cases "P a")
    case True
    with Cons.prems have "a = x" by simp
    with True have "a # xs = [] @ x # xs \<and> (\<forall>y \<in> set []. \<not> P y) \<and> P x" by simp
    then show ?thesis by blast
  next
    case False
    with Cons obtain pre post where "xs = pre @ x # post" "\<forall>y \<in> set pre. \<not> P y" "P x"
      by auto
    with False have "a # xs = (a # pre) @ x # post \<and> (\<forall>y \<in> set (a # pre). \<not> P y) \<and> P x"
      by simp
    then show ?thesis by blast
  qed
qed

text \<open>
  Claim C2. The collection returns what its first member that resolves the identifier
  returns. It returns an error iff no member resolves the identifier: the error of the
  last member, or \<^verbatim>\<open>NoSuchKey\<close> for the empty collection.
\<close>

theorem collection_first_match:
  "(case find (\<lambda>tm. resolves tm keyID) tmc of
      Some tm \<Rightarrow> TrustedMaterialCollection_PublicKeyVerifier tmc keyID = tm keyID
    | None \<Rightarrow> TrustedMaterialCollection_PublicKeyVerifier tmc keyID
                = (if tmc = [] then Inl NoSuchKey else last tmc keyID))
   \<and> ((\<exists>err. TrustedMaterialCollection_PublicKeyVerifier tmc keyID = Inl err)
        \<longleftrightarrow> (\<forall>tm \<in> set tmc. \<not> resolves tm keyID))"
proof (cases "find (\<lambda>tm. resolves tm keyID) tmc")
  case None
  then have nf: "\<forall>tm \<in> set tmc. \<not> resolves tm keyID"
    by (simp add: find_None_iff)
  from collection_all_fail [OF nf]
  have r: "TrustedMaterialCollection_PublicKeyVerifier tmc keyID
           = (if tmc = [] then Inl NoSuchKey else last tmc keyID)" .
  have "\<exists>err. TrustedMaterialCollection_PublicKeyVerifier tmc keyID = Inl err"
  proof (cases "tmc = []")
    case True
    with r show ?thesis by simp
  next
    case False
    then have "last tmc \<in> set tmc" by simp
    with nf have "\<not> resolves (last tmc) keyID" by blast
    with r False show ?thesis
      by (auto simp: resolves_def split: sum.splits)
  qed
  with None r nf show ?thesis by simp
next
  case (Some tm)
  from find_split [OF Some] obtain pre post
    where sp: "tmc = pre @ tm # post" and pre: "\<forall>y \<in> set pre. \<not> resolves y keyID"
      and tm: "resolves tm keyID"
    by blast
  from collection_first [OF pre tm] sp
  have r: "TrustedMaterialCollection_PublicKeyVerifier tmc keyID = tm keyID" by simp
  from tm r have "\<not> (\<exists>err. TrustedMaterialCollection_PublicKeyVerifier tmc keyID = Inl err)"
    by (auto simp: resolves_def split: sum.splits)
  moreover from sp tm have "\<not> (\<forall>tm \<in> set tmc. \<not> resolves tm keyID)"
    by auto
  ultimately show ?thesis using Some r by simp
qed


theorem collection_first_match_witness:
  "TrustedMaterialCollection_PublicKeyVerifier
       [noSuchKey, singleKeyVerifier (sampleVerifier None),
        singleKeyVerifier (sampleVerifier (Some 1670000000000000000))] ''foo''
     = Inr (sampleVerifier None)
   \<and> TrustedMaterialCollection_PublicKeyVerifier
       [noSuchKey, unsupported :: TimeConstrainedVerifier TrustedMaterial] ''foo''
     = Inl UnsupportedAlgorithm"
proof -
  let ?tmc = "[noSuchKey, singleKeyVerifier (sampleVerifier None),
               singleKeyVerifier (sampleVerifier (Some 1670000000000000000))]"
  let ?bad = "[noSuchKey, unsupported :: TimeConstrainedVerifier TrustedMaterial]"
  have f: "find (\<lambda>tm. resolves tm ''foo'') ?tmc = Some (singleKeyVerifier (sampleVerifier None))"
    by (simp add: resolves_def noSuchKey_def singleKeyVerifier_def)
  have g: "find (\<lambda>tm. resolves tm ''foo'') ?bad = None"
    by (simp add: resolves_def noSuchKey_def unsupported_def)
  from collection_first_match [of ?tmc "''foo''", unfolded f]
  have "TrustedMaterialCollection_PublicKeyVerifier ?tmc ''foo'' = Inr (sampleVerifier None)"
    by (simp add: singleKeyVerifier_def)
  moreover from collection_first_match [of ?bad "''foo''", unfolded g]
  have "TrustedMaterialCollection_PublicKeyVerifier ?bad ''foo'' = Inl UnsupportedAlgorithm"
    by (simp add: unsupported_def)
  ultimately show ?thesis by blast
qed

lemma print_parse: "sameInstant (printTimestamp (parseTimestamp w)) w"
  by (simp add: sameInstant_def printTimestamp_def parseTimestamp_def split: option.splits)

lemma constructed_retains:
  assumes "NewTrustedRootFromProtobuf K p = Inr tr"
  shows "trustedRoot tr = p"
proof -
  from assms have "DocMediaType p = TrustedRootMediaType01"
    by (simp add: NewTrustedRootFromProtobuf_def split: if_splits)
  with assms show ?thesis
    by (auto simp: NewTrustedRootFromProtobuf_def split: if_splits)
qed

text \<open>
  The overlay gives back the array of logs it was built from when the keys are distinct,
  and only then: of two entries with one key it repeats the first.
\<close>

lemma overlay_own_logs:
  assumes "distinct (logKeys K ls)"
  shows "overlayLogs K (map_of (zip (logKeys K ls) ls)) ls = ls"
proof -
  have "\<And>l. l \<in> set ls \<Longrightarrow> map_of (zip (logKeys K ls) ls) (logKey K (PublicKeyRaw l)) = Some l"
  proof -
    fix l assume "l \<in> set ls"
    then obtain i where i: "i < length ls" and l: "ls ! i = l"
      by (auto simp: in_set_conv_nth)
    have len: "length (logKeys K ls) = length ls"
      by (simp add: logKeys_def)
    from i l have k: "logKeys K ls ! i = logKey K (PublicKeyRaw l)"
      by (simp add: logKeys_def)
    from map_of_zip_nth [OF len assms i] k l
    show "map_of (zip (logKeys K ls) ls) (logKey K (PublicKeyRaw l)) = Some l"
      by simp
  qed
  then show ?thesis
    unfolding overlayLogs_def by (intro map_idI) simp
qed

lemma overlay_needs_distinct_keys:
  "overlayLogs sampleKeys
     (map_of (zip (logKeys sampleKeys
        [TransparencyLogInstance ''https://a.example'' [1] 5 [1] (TimeRange (0::nat) None),
         TransparencyLogInstance ''https://b.example'' [1] 5 [1] (TimeRange 0 None)])
        [TransparencyLogInstance ''https://a.example'' [1] 5 [1] (TimeRange 0 None),
         TransparencyLogInstance ''https://b.example'' [1] 5 [1] (TimeRange 0 None)]))
     [TransparencyLogInstance ''https://a.example'' [1] 5 [1] (TimeRange 0 None),
      TransparencyLogInstance ''https://b.example'' [1] 5 [1] (TimeRange 0 None)]
   = [TransparencyLogInstance ''https://a.example'' [1] 5 [1] (TimeRange 0 None),
      TransparencyLogInstance ''https://a.example'' [1] 5 [1] (TimeRange 0 None)]"
  by (simp add: overlayLogs_def logKeys_def)

lemma constructed_fields:
  assumes "NewTrustedRootFromProtobuf K p = Inr tr"
  shows "trustedRoot tr = p"
    and "certificateAuthorities tr = CertificateAuthorities p"
    and "timestampingAuthorities tr = TimestampAuthorities p"
    and "rekorLogs tr = map_of (zip (logKeys K (Tlogs p)) (Tlogs p))"
    and "ctLogs tr = map_of (zip (logKeys K (Ctlogs p)) (Ctlogs p))"
    and "distinct (logKeys K (Tlogs p))"
    and "distinct (logKeys K (Ctlogs p))"
  using assms
  by (auto simp: NewTrustedRootFromProtobuf_def split: if_splits)

lemma constructed_marshal:
  assumes "NewTrustedRootFromProtobuf K p = Inr tr"
  shows "MarshalJSON K tr = map_TrustedRootDoc printTimestamp p"
proof -
  note f = constructed_fields [OF assms]
  have "TrustedRootDoc (DocMediaType p) (overlayLogs K (rekorLogs tr) (Tlogs p))
          (certificateAuthorities tr) (overlayLogs K (ctLogs tr) (Ctlogs p))
          (timestampingAuthorities tr) (UnknownFields p) = p"
    by (simp add: f(2-5) overlay_own_logs [OF f(6)] overlay_own_logs [OF f(7)])
  then show ?thesis
    by (simp add: MarshalJSON_def f(1))
qed

text \<open>
  Claim C1. A wire document from which a trusted root is constructed comes back from
  serializing that root as a semantically equal document: the same document up to time
  fields that denote the same instant (a fraction of zero may have been dropped). The
  fields the model does not interpret come back unchanged.
\<close>

theorem json_round_trip:
  assumes "NewTrustedRootFromJSON K d = Inr tr"
  shows "semanticallyEqual (MarshalJSON K tr) d
         \<and> UnknownFields (MarshalJSON K tr) = UnknownFields d"
proof -
  from assms have m: "MarshalJSON K tr
      = map_TrustedRootDoc printTimestamp (map_TrustedRootDoc parseTimestamp d)"
    unfolding NewTrustedRootFromJSON_def by (rule constructed_marshal)
  have "rel_TrustedRootDoc (\<lambda>a b. sameInstant (printTimestamp (parseTimestamp a)) b) d d"
    by (rule TrustedRootDoc.rel_refl) (rule print_parse)
  then have "semanticallyEqual (MarshalJSON K tr) d"
    by (simp add: m semanticallyEqual_def TrustedRootDoc.rel_map)
  moreover have "UnknownFields (MarshalJSON K tr) = UnknownFields d"
    by (simp add: m TrustedRootDoc.map_sel)
  ultimately show ?thesis by blast
qed

lemma sampleKeys_distinct: "EncodeToString [192, 210] \<noteq> EncodeToString [7, 9]"
  by (simp add: hexdigit_def)

theorem json_round_trip_witness:
  "\<exists>tr. NewTrustedRootFromJSON sampleKeys sampleDoc = Inr tr
        \<and> semanticallyEqual (MarshalJSON sampleKeys tr) sampleDoc
        \<and> UnknownFields (MarshalJSON sampleKeys tr) = [(''vendorExtension'', [1, 2, 3])]
        \<and> MarshalJSON sampleKeys tr \<noteq> sampleDoc"
proof -
  obtain tr where h: "NewTrustedRootFromJSON sampleKeys sampleDoc = Inr tr"
    using sampleKeys_distinct
    by (simp add: NewTrustedRootFromJSON_def NewTrustedRootFromProtobuf_def sampleDoc_def
          logKeys_def authorityKeys_def sampleKeys_def)
  have r: "MarshalJSON sampleKeys tr
           = map_TrustedRootDoc printTimestamp (map_TrustedRootDoc parseTimestamp sampleDoc)"
    using h unfolding NewTrustedRootFromJSON_def by (rule constructed_marshal)
  have n: "MarshalJSON sampleKeys tr \<noteq> sampleDoc"
    by (simp add: r sampleDoc_def parseTimestamp_def printTimestamp_def)
  from json_round_trip [OF h] h n show ?thesis
    by (auto simp: sampleDoc_def)
qed

end
